theory Spec2Isabelle
  imports Complex_Main
begin

section \<open>The biquad engine (DigitalBiquadFilter.h)\<close>

text \<open>
  The template parameter \<open>T\<close> (float, double, long double) is modelled by the reals:
  every arithmetic operation of the source is the exact operation, rounding, infinities
  and NaN are not modelled. The operations keep the order in which the source writes
  them. The two places where a value outside the range of \<open>T\<close> changes what the
  source does are modelled a second time, with the range, in the section on the
  floating-point formats.
\<close>

record Coefficients =
  b0 :: real
  b1 :: real
  b2 :: real
  a0 :: real
  a1 :: real
  a2 :: real

record State =
  x1 :: real
  x2 :: real
  y1 :: real
  y2 :: real

text \<open>\<open>m_iter\<close> is a \<open>long long\<close> that only counts; it is modelled as an unbounded integer.\<close>

record DigitalBiquadFilter =
  m_coefficients :: Coefficients
  m_state :: State
  m_iter :: int

text \<open>\<open>State<T> m_state = {}\<close>: the value-initialised state.\<close>

definition zero_state :: State where
  "zero_state = \<lparr>x1 = 0, x2 = 0, y1 = 0, y2 = 0\<rparr>"

text \<open>\<open>normalize_coefficients\<close>: five divisions by the stored \<open>a0\<close>, then \<open>a0 = 1\<close>.\<close>

definition normalize_coefficients :: "DigitalBiquadFilter \<Rightarrow> DigitalBiquadFilter" where
  "normalize_coefficients f =
     (let c0 = m_coefficients f;
          c1 = c0\<lparr>b0 := b0 c0 / a0 c0\<rparr>;
          c2 = c1\<lparr>b1 := b1 c1 / a0 c1\<rparr>;
          c3 = c2\<lparr>b2 := b2 c2 / a0 c2\<rparr>;
          c4 = c3\<lparr>a1 := a1 c3 / a0 c3\<rparr>;
          c5 = c4\<lparr>a2 := a2 c4 / a0 c4\<rparr>;
          c6 = c5\<lparr>a0 := 1\<rparr>
      in f\<lparr>m_coefficients := c6\<rparr>)"

text \<open>The private constructor: copies the coefficients, default members, normalises.\<close>

definition construct :: "Coefficients \<Rightarrow> DigitalBiquadFilter" where
  "construct coefficients =
     normalize_coefficients
       \<lparr>m_coefficients = coefficients, m_state = zero_state, m_iter = 0\<rparr>"

definition create :: "Coefficients \<Rightarrow> DigitalBiquadFilter option" where
  "create coefficients =
     (if a0 coefficients = 0 then None else Some (construct coefficients))"

text \<open>
  \<open>process(T &sample)\<close>: the sample is passed by reference, so the model returns the
  value written back together with the updated filter.
\<close>

definition process :: "DigitalBiquadFilter \<Rightarrow> real \<Rightarrow> real \<times> DigitalBiquadFilter" where
  "process f sample =
     (let xn = sample;
          xp1 = x1 (m_state f);
          xp2 = x2 (m_state f);
          yp1 = y1 (m_state f);
          yp2 = y2 (m_state f);
          c = m_coefficients f;
          output = (b0 c * xn) + (b1 c * xp1) + (b2 c * xp2) - (a1 c * yp1) - (a2 c * yp2);
          s1 = (m_state f)\<lparr>x2 := xp1\<rparr>;
          s2 = s1\<lparr>x1 := xn\<rparr>;
          s3 = s2\<lparr>y2 := yp1\<rparr>;
          s4 = s3\<lparr>y1 := output\<rparr>
      in (output, f\<lparr>m_state := s4, m_iter := m_iter f + 1\<rparr>))"

definition reset :: "DigitalBiquadFilter \<Rightarrow> DigitalBiquadFilter" where
  "reset f =
     (let s1 = (m_state f)\<lparr>x1 := 0\<rparr>;
          s2 = s1\<lparr>x2 := 0\<rparr>;
          s3 = s2\<lparr>y1 := 0\<rparr>;
          s4 = s3\<lparr>y2 := 0\<rparr>
      in f\<lparr>m_state := s4, m_iter := 0\<rparr>)"

definition set_coefficients ::
  "DigitalBiquadFilter \<Rightarrow> Coefficients \<Rightarrow> bool \<times> DigitalBiquadFilter" where
  "set_coefficients f coefficients =
     (if a0 coefficients = 0 then (False, f)
      else (True, reset (normalize_coefficients (f\<lparr>m_coefficients := coefficients\<rparr>))))"

subsection \<open>Block processing\<close>

text \<open>
  \<open>process(T *samples, size_t count)\<close> receives a pointer and a count. The pointer is
  modelled as an optional list (\<open>None\<close> is \<open>nullptr\<close>, \<open>Some xs\<close> points at the
  caller's buffer \<open>xs\<close>), the count as a natural number. The source trusts the caller for
  \<open>count\<close> valid elements; an access past the end of the buffer is undefined behaviour in
  C++ and the value \<open>Inl OutOfBounds\<close> in the model.
\<close>

datatype fault = OutOfBounds

text \<open>The loop of \<open>process_block_scalar\<close>: \<open>for (i = 0; i < count; ++i) process(samples[i])\<close>.\<close>

function scalar_loop ::
  "nat \<Rightarrow> nat \<Rightarrow> real list \<Rightarrow> DigitalBiquadFilter \<Rightarrow> fault + (real list \<times> DigitalBiquadFilter)" where
  "scalar_loop i count samples f =
     (if i < count then
        (if i < length samples then
           scalar_loop (i + 1) count
             (samples[i := fst (process f (samples ! i))]) (snd (process f (samples ! i)))
         else Inl OutOfBounds)
      else Inr (samples, f))"
  by pat_completeness auto
termination
  by (relation "measure (\<lambda>(i, count, samples, f). count - i)") auto

definition process_block_scalar ::
  "DigitalBiquadFilter \<Rightarrow> real list option \<Rightarrow> nat
     \<Rightarrow> fault + (real list option \<times> DigitalBiquadFilter)" where
  "process_block_scalar f samples count =
     (case samples of
        None \<Rightarrow> Inr (None, f)
      | Some xs \<Rightarrow>
          if count \<le> 0 then Inr (Some xs, f)
          else (case scalar_loop 0 count xs f of
                  Inl e \<Rightarrow> Inl e
                | Inr (ys, f') \<Rightarrow> Inr (Some ys, f')))"

text \<open>
  The vector registers. \<open>__m256\<close> holds 8 floats, \<open>__m256d\<close> 4 doubles, \<open>__m128\<close> and
  \<open>float32x4_t\<close> 4 floats, \<open>__m128d\<close> and \<open>float64x2_t\<close> 2 doubles. A register is a
  list of its lanes, lane 0 first; the intrinsics act lane by lane.
\<close>

datatype lanes = W2 | W4 | W8

fun width :: "lanes \<Rightarrow> nat" where
  "width W2 = 2"
| "width W4 = 4"
| "width W8 = 8"

type_synonym vec = "real list"

definition set1 :: "lanes \<Rightarrow> real \<Rightarrow> vec" where
  "set1 w v = replicate (width w) v"

definition loadu :: "lanes \<Rightarrow> real list \<Rightarrow> nat \<Rightarrow> vec" where
  "loadu w samples i = take (width w) (drop i samples)"

definition storeu :: "real list \<Rightarrow> nat \<Rightarrow> vec \<Rightarrow> real list" where
  "storeu samples i v = take i samples @ v @ drop (i + length v) samples"

definition vmul :: "vec \<Rightarrow> vec \<Rightarrow> vec" where
  "vmul u v = map2 (*) u v"

definition vadd :: "vec \<Rightarrow> vec \<Rightarrow> vec" where
  "vadd u v = map2 (+) u v"

definition vsub :: "vec \<Rightarrow> vec \<Rightarrow> vec" where
  "vsub u v = map2 (-) u v"

text \<open>\<open>_mm256_cvtss_f32\<close>, \<open>_mm_cvtsd_f64\<close>, \<open>vgetq_lane_f32(v, 0)\<close>: the lowest lane.\<close>

definition lane0 :: "vec \<Rightarrow> real" where
  "lane0 v = hd v"

text \<open>
  The loop shared by the six vector bodies, \<open>for (i = 0; i + (w - 1) < count; i += w)\<close>.
  The NEON bodies use \<open>vmlaq\<close> (\<open>a + b * c\<close>) where the x86 bodies use a product and a
  sum; over the reals these are the same expression.
\<close>

function vec_loop ::
  "lanes \<Rightarrow> Coefficients \<Rightarrow> nat \<Rightarrow> nat \<Rightarrow> real list \<Rightarrow> vec \<Rightarrow> vec \<Rightarrow> vec \<Rightarrow> vec
     \<Rightarrow> fault + (real list \<times> vec \<times> vec \<times> vec \<times> vec)" where
  "vec_loop w c i count samples vx1 vx2 vy1 vy2 =
     (if i + (width w - 1) < count then
        (if i + width w \<le> length samples then
           (let vx0 = loadu w samples i;
                t = vadd (vadd (vmul (set1 w (b0 c)) vx0) (vmul (set1 w (b1 c)) vx1))
                         (vmul (set1 w (b2 c)) vx2);
                vy0 = vsub t (vadd (vmul (set1 w (a1 c)) vy1) (vmul (set1 w (a2 c)) vy2))
            in vec_loop w c (i + width w) count (storeu samples i vy0) vx0 vx1 vy0 vy1)
         else Inl OutOfBounds)
      else Inr (samples, vx1, vx2, vy1, vy2))"
  by pat_completeness auto
termination
  by (relation "measure (\<lambda>(w, c, i, count, samples, vx1, vx2, vy1, vy2). count - i)")
     (auto, case_tac w, auto)

text \<open>
  The part of a vector body after the small-count test: broadcast the state, run the
  loop, read lane 0 back into the state. \<open>m_iter\<close> is not touched there.
\<close>

definition process_block_vec ::
  "lanes \<Rightarrow> DigitalBiquadFilter \<Rightarrow> real list \<Rightarrow> nat
     \<Rightarrow> fault + (real list option \<times> DigitalBiquadFilter)" where
  "process_block_vec w f xs count =
     (case vec_loop w (m_coefficients f) 0 count xs
             (set1 w (x1 (m_state f))) (set1 w (x2 (m_state f)))
             (set1 w (y1 (m_state f))) (set1 w (y2 (m_state f))) of
        Inl e \<Rightarrow> Inl e
      | Inr (ys, vx1, vx2, vy1, vy2) \<Rightarrow>
          Inr (Some ys,
               f\<lparr>m_state := \<lparr>x1 = lane0 vx1, x2 = lane0 vx2, y1 = lane0 vy1, y2 = lane0 vy2\<rparr>\<rparr>))"

text \<open>
  The instantiation of \<open>T\<close> and the instruction set the header is compiled for. With
  \<open>T = long double\<close> neither \<open>if constexpr\<close> branch of a vector body is taken.
\<close>

datatype precision = Float | Double | LongDouble

datatype simd = AVX | SSE4_1 | NEON | NoSimd

definition process_block_avx ::
  "precision \<Rightarrow> DigitalBiquadFilter \<Rightarrow> real list option \<Rightarrow> nat
     \<Rightarrow> fault + (real list option \<times> DigitalBiquadFilter)" where
  "process_block_avx p f samples count =
     (case samples of
        None \<Rightarrow> Inr (None, f)
      | Some xs \<Rightarrow>
          (case p of
             Float \<Rightarrow> if count < 8 then process_block_scalar f samples count
                      else process_block_vec W8 f xs count
           | Double \<Rightarrow> if count < 4 then process_block_scalar f samples count
                       else process_block_vec W4 f xs count
           | LongDouble \<Rightarrow> Inr (samples, f)))"

definition process_block_sse ::
  "precision \<Rightarrow> DigitalBiquadFilter \<Rightarrow> real list option \<Rightarrow> nat
     \<Rightarrow> fault + (real list option \<times> DigitalBiquadFilter)" where
  "process_block_sse p f samples count =
     (case samples of
        None \<Rightarrow> Inr (None, f)
      | Some xs \<Rightarrow>
          (case p of
             Float \<Rightarrow> if count < 4 then process_block_scalar f samples count
                      else process_block_vec W4 f xs count
           | Double \<Rightarrow> if count < 2 then process_block_scalar f samples count
                       else process_block_vec W2 f xs count
           | LongDouble \<Rightarrow> Inr (samples, f)))"

definition process_block_neon ::
  "precision \<Rightarrow> DigitalBiquadFilter \<Rightarrow> real list option \<Rightarrow> nat
     \<Rightarrow> fault + (real list option \<times> DigitalBiquadFilter)" where
  "process_block_neon p f samples count =
     (case samples of
        None \<Rightarrow> Inr (None, f)
      | Some xs \<Rightarrow>
          (case p of
             Float \<Rightarrow> if count < 4 then process_block_scalar f samples count
                      else process_block_vec W4 f xs count
           | Double \<Rightarrow> if count < 2 then process_block_scalar f samples count
                       else process_block_vec W2 f xs count
           | LongDouble \<Rightarrow> Inr (samples, f)))"

text \<open>
  \<open>process(T *samples, size_t count)\<close>: the preprocessor chain picks one body; the
  result is the flag, the buffer and the filter after the call.
\<close>

definition process_block ::
  "simd \<Rightarrow> precision \<Rightarrow> DigitalBiquadFilter \<Rightarrow> real list option \<Rightarrow> nat
     \<Rightarrow> fault + (bool \<times> real list option \<times> DigitalBiquadFilter)" where
  "process_block isa p f samples count =
     (if samples = None \<or> count \<le> 0 then Inr (False, samples, f)
      else
        (case (case isa of
                 AVX \<Rightarrow> process_block_avx p f samples count
               | SSE4_1 \<Rightarrow> process_block_sse p f samples count
               | NEON \<Rightarrow> process_block_neon p f samples count
               | NoSimd \<Rightarrow> process_block_scalar f samples count) of
           Inl e \<Rightarrow> Inl e
         | Inr (samples', f') \<Rightarrow> Inr (True, samples', f')))"

text \<open>
  What the block call is compared with: \<open>process(sample)\<close> called on each sample of a
  sequence in order, the filter threaded through. This definition follows the words of
  the specification, not a function of the source.
\<close>

fun sequential :: "DigitalBiquadFilter \<Rightarrow> real list \<Rightarrow> real list \<times> DigitalBiquadFilter" where
  "sequential f [] = ([], f)"
| "sequential f (x # xs) =
     (let r = process f x; rest = sequential (snd r) xs
      in (fst r # fst rest, snd rest))"

section \<open>The filter types (FilterObject.h and the eight derived classes)\<close>

text \<open>
  \<open>FilterObject<T>\<close> is the abstract base; each derived class overrides
  \<open>calculate_coefficients\<close>. The dynamic type of the object is the field \<open>kind\<close>, the
  virtual call is a case distinction on it. \<open>m_sampleRate\<close> is an \<open>int\<close> that is only
  compared and converted to \<open>T\<close>, so it is modelled as an unbounded integer.
\<close>

datatype FilterKind =
  LowPass | HighPass | BandPass | Notch | AllPass | PeakingEQ | LowShelf | HighShelf

record FilterObject =
  kind :: FilterKind
  m_filter :: "DigitalBiquadFilter option"
  m_cutoff :: real
  m_sampleRate :: int
  m_qFactor :: real
  m_gain :: real
  m_constantSkirtGain :: bool
  m_bypass :: bool

text \<open>
  \<open>M_PI\<close> is \<open>pi\<close>, \<open>std::pow(10, g / 40)\<close> is \<open>10 powr (g / 40)\<close>. A division by
  \<open>m_sampleRate = 0\<close> gives an infinity or a NaN in the source and 0 in HOL; the
  factories never construct an object with that sample rate.
\<close>

definition calculate_coefficients :: "FilterObject \<Rightarrow> Coefficients" where
  "calculate_coefficients this =
     (let w0 = 2 * pi * m_cutoff this / real_of_int (m_sampleRate this);
          cos_w0 = cos w0;
          alpha = sin w0 / (2 * m_qFactor this);
          A = 10 powr (m_gain this / 40)
      in case kind this of
           LowPass \<Rightarrow>
             (let c1 = 1 - cos_w0; c0 = c1 / 2; c2 = c0
              in \<lparr>b0 = c0, b1 = c1, b2 = c2,
                  a0 = 1 + alpha, a1 = - 2 * cos_w0, a2 = 1 - alpha\<rparr>)
         | HighPass \<Rightarrow>
             (let c1 = - (1 + cos_w0); c0 = - c1 / 2; c2 = c0
              in \<lparr>b0 = c0, b1 = c1, b2 = c2,
                  a0 = 1 + alpha, a1 = - 2 * cos_w0, a2 = 1 - alpha\<rparr>)
         | BandPass \<Rightarrow>
             (if m_constantSkirtGain this
              then \<lparr>b0 = m_qFactor this * alpha, b1 = 0, b2 = - m_qFactor this * alpha,
                    a0 = 1 + alpha, a1 = - 2 * cos_w0, a2 = 1 - alpha\<rparr>
              else \<lparr>b0 = alpha, b1 = 0, b2 = - alpha,
                    a0 = 1 + alpha, a1 = - 2 * cos_w0, a2 = 1 - alpha\<rparr>)
         | Notch \<Rightarrow>
             \<lparr>b0 = 1, b1 = - 2 * cos_w0, b2 = 1,
              a0 = 1 + alpha, a1 = - 2 * cos_w0, a2 = 1 - alpha\<rparr>
         | AllPass \<Rightarrow>
             \<lparr>b0 = 1 - alpha, b1 = - 2 * cos_w0, b2 = 1 + alpha,
              a0 = 1 + alpha, a1 = - 2 * cos_w0, a2 = 1 - alpha\<rparr>
         | PeakingEQ \<Rightarrow>
             \<lparr>b0 = 1 + alpha * A, b1 = - 2 * cos_w0, b2 = 1 - alpha * A,
              a0 = 1 + alpha / A, a1 = - 2 * cos_w0, a2 = 1 - alpha / A\<rparr>
         | LowShelf \<Rightarrow>
             \<lparr>b0 = A * (A + 1 - (A - 1) * cos_w0 + 2 * sqrt A * alpha),
              b1 = 2 * A * (A - 1 - (A + 1) * cos_w0),
              b2 = A * (A + 1 - (A - 1) * cos_w0 - 2 * sqrt A * alpha),
              a0 = A + 1 + (A - 1) * cos_w0 + 2 * sqrt A * alpha,
              a1 = - 2 * (A - 1 + (A + 1) * cos_w0),
              a2 = A + 1 + (A - 1) * cos_w0 - 2 * sqrt A * alpha\<rparr>
         | HighShelf \<Rightarrow>
             \<lparr>b0 = A * (A + 1 + (A - 1) * cos_w0 + 2 * sqrt A * alpha),
              b1 = - 2 * A * (A - 1 + (A + 1) * cos_w0),
              b2 = A * (A + 1 + (A - 1) * cos_w0 - 2 * sqrt A * alpha),
              a0 = A + 1 - (A - 1) * cos_w0 + 2 * sqrt A * alpha,
              a1 = 2 * (A - 1 - (A + 1) * cos_w0),
              a2 = A + 1 - (A - 1) * cos_w0 - 2 * sqrt A * alpha\<rparr>)"

definition verify_parameters :: "real \<Rightarrow> int \<Rightarrow> real \<Rightarrow> bool" where
  "verify_parameters cutoff sampleRate qFactor =
     (if sampleRate \<le> 0 \<or> cutoff \<le> 0 \<or> qFactor \<le> 0 \<or> cutoff > real_of_int sampleRate / 2
      then False else True)"

text \<open>The default member initialisers of \<open>FilterObject\<close>.\<close>

definition default_object :: "FilterKind \<Rightarrow> FilterObject" where
  "default_object k =
     \<lparr>kind = k, m_filter = None, m_cutoff = 0, m_sampleRate = 0, m_qFactor = 0,
      m_gain = 0, m_constantSkirtGain = False, m_bypass = False\<rparr>"

text \<open>
  The private constructors of the derived classes. All store cutoff, sample rate and Q;
  the shelving and peaking classes also store the gain, the band-pass class the
  constant-skirt-gain flag. The arguments \<open>gain\<close> and \<open>constantSkirtGain\<close> are ignored
  for the classes whose constructor does not take them. \<open>stored_parameters\<close> is the
  object after these assignments, before the core is made.
\<close>

definition stored_parameters ::
  "FilterKind \<Rightarrow> real \<Rightarrow> int \<Rightarrow> real \<Rightarrow> real \<Rightarrow> bool \<Rightarrow> FilterObject" where
  "stored_parameters k cutoff sampleRate qFactor gain constantSkirtGain =
     (let o1 = (default_object k)\<lparr>m_cutoff := cutoff\<rparr>;
          o2 = o1\<lparr>m_sampleRate := sampleRate\<rparr>;
          o3 = o2\<lparr>m_qFactor := qFactor\<rparr>;
          o4 = (if k = PeakingEQ \<or> k = LowShelf \<or> k = HighShelf
                then o3\<lparr>m_gain := gain\<rparr> else o3)
      in (if k = BandPass then o4\<lparr>m_constantSkirtGain := constantSkirtGain\<rparr> else o4))"

text \<open>
  The constructor then calls the class's \<open>calculate_coefficients\<close> and hands the result
  to \<open>DigitalBiquadFilter<T>::create\<close>, whose test \<open>a0 == 0.0\<close> sees the value that
  the arithmetic of \<open>T\<close> produced. The computation is the parameter \<open>calc\<close>:
  \<open>calculate_coefficients\<close> is its value in exact arithmetic, and what is proved for
  every \<open>calc\<close> holds whatever the floating-point arithmetic returns.
\<close>

definition construct_filter ::
  "(FilterObject \<Rightarrow> Coefficients) \<Rightarrow> FilterKind \<Rightarrow> real \<Rightarrow> int \<Rightarrow> real \<Rightarrow> real \<Rightarrow> bool
     \<Rightarrow> FilterObject" where
  "construct_filter calc k cutoff sampleRate qFactor gain constantSkirtGain =
     (let this = stored_parameters k cutoff sampleRate qFactor gain constantSkirtGain;
          coefficients = calc this
      in this\<lparr>m_filter := create coefficients\<rparr>)"

text \<open>The static factories \<open>LowPassFilter::create\<close>, ..., \<open>PeakingEQFilter::create\<close>.\<close>

definition create_filter ::
  "(FilterObject \<Rightarrow> Coefficients) \<Rightarrow> FilterKind \<Rightarrow> real \<Rightarrow> int \<Rightarrow> real \<Rightarrow> real \<Rightarrow> bool
     \<Rightarrow> FilterObject option" where
  "create_filter calc k cutoff sampleRate qFactor gain constantSkirtGain =
     (if \<not> verify_parameters cutoff sampleRate qFactor then None
      else (let obj = construct_filter calc k cutoff sampleRate qFactor gain constantSkirtGain
            in if m_filter obj = None then None else Some obj))"

text \<open>\<open>FilterObject::process(T &sample)\<close>: flag, sample after the call, object after the call.\<close>

definition filter_process :: "FilterObject \<Rightarrow> real \<Rightarrow> bool \<times> real \<times> FilterObject" where
  "filter_process this sample =
     (if m_bypass this then (False, sample, this)
      else (case m_filter this of
              Some flt \<Rightarrow>
                (let r = process flt sample
                 in (True, fst r, this\<lparr>m_filter := Some (snd r)\<rparr>))
            | None \<Rightarrow> (False, sample, this)))"

text \<open>
  \<open>FilterObject::process(T *samples, size_t count)\<close>: the flag of the engine's block
  call is dropped, the object answers \<open>true\<close> whenever it has a core.
\<close>

definition filter_process_block ::
  "simd \<Rightarrow> precision \<Rightarrow> FilterObject \<Rightarrow> real list option \<Rightarrow> nat
     \<Rightarrow> fault + (bool \<times> real list option \<times> FilterObject)" where
  "filter_process_block isa p this samples count =
     (if m_bypass this then Inr (False, samples, this)
      else (case m_filter this of
              Some flt \<Rightarrow>
                (case process_block isa p flt samples count of
                   Inl e \<Rightarrow> Inl e
                 | Inr (ok, samples', flt') \<Rightarrow> Inr (True, samples', this\<lparr>m_filter := Some flt'\<rparr>))
            | None \<Rightarrow> Inr (False, samples, this)))"

text \<open>
  The setters: check the argument, store it, recompute the coefficients from the stored
  parameters and, if there is a core, hand them to it. The flag that
  \<open>set_coefficients\<close> returns is dropped by the source.
\<close>

definition set_cutoff :: "FilterObject \<Rightarrow> real \<Rightarrow> bool \<times> FilterObject" where
  "set_cutoff this cutoff =
     (if cutoff \<le> 0 then (False, this)
      else (let this1 = this\<lparr>m_cutoff := cutoff\<rparr>;
                newCoefficients = calculate_coefficients this1
            in case m_filter this1 of
                 Some flt \<Rightarrow>
                   (True, this1\<lparr>m_filter := Some (snd (set_coefficients flt newCoefficients))\<rparr>)
               | None \<Rightarrow> (False, this1)))"

definition get_cutoff :: "FilterObject \<Rightarrow> real" where
  "get_cutoff this = m_cutoff this"

definition set_sample_rate :: "FilterObject \<Rightarrow> int \<Rightarrow> bool \<times> FilterObject" where
  "set_sample_rate this sampleRate =
     (if sampleRate \<le> 0 then (False, this)
      else (let this1 = this\<lparr>m_sampleRate := sampleRate\<rparr>;
                newCoefficients = calculate_coefficients this1
            in case m_filter this1 of
                 Some flt \<Rightarrow>
                   (True, this1\<lparr>m_filter := Some (snd (set_coefficients flt newCoefficients))\<rparr>)
               | None \<Rightarrow> (False, this1)))"

definition get_sample_rate :: "FilterObject \<Rightarrow> int" where
  "get_sample_rate this = m_sampleRate this"

definition set_q_factor :: "FilterObject \<Rightarrow> real \<Rightarrow> bool \<times> FilterObject" where
  "set_q_factor this qFactor =
     (if qFactor \<le> 0 then (False, this)
      else (let this1 = this\<lparr>m_qFactor := qFactor\<rparr>;
                newCoefficients = calculate_coefficients this1
            in case m_filter this1 of
                 Some flt \<Rightarrow>
                   (True, this1\<lparr>m_filter := Some (snd (set_coefficients flt newCoefficients))\<rparr>)
               | None \<Rightarrow> (False, this1)))"

definition get_q_factor :: "FilterObject \<Rightarrow> real" where
  "get_q_factor this = m_qFactor this"

text \<open>\<open>std::log10(2.0)\<close> is \<open>log 10 2\<close>, \<open>std::asinh\<close> is \<open>arsinh\<close>.\<close>

definition set_bandwidth :: "FilterObject \<Rightarrow> real \<Rightarrow> bool \<times> FilterObject" where
  "set_bandwidth this bandwidth =
     (if bandwidth \<le> 0 then (False, this)
      else (let Q = 1 / (2 * sinh (bandwidth * log 10 2 / 2))
            in set_q_factor this Q))"


definition set_gain :: "FilterObject \<Rightarrow> real \<Rightarrow> bool \<times> FilterObject" where
  "set_gain this gain =
     ((let this1 = this\<lparr>m_gain := gain\<rparr>;
                newCoefficients = calculate_coefficients this1
            in case m_filter this1 of
                 Some flt \<Rightarrow>
                   (True, this1\<lparr>m_filter := Some (snd (set_coefficients flt newCoefficients))\<rparr>)
               | None \<Rightarrow> (False, this1)))"

definition get_gain :: "FilterObject \<Rightarrow> real" where
  "get_gain this = m_gain this"

definition set_constant_skirt_gain :: "FilterObject \<Rightarrow> bool \<Rightarrow> bool \<times> FilterObject" where
  "set_constant_skirt_gain this constantSkirtGain =
     ((let this1 = this\<lparr>m_constantSkirtGain := constantSkirtGain\<rparr>;
                newCoefficients = calculate_coefficients this1
            in case m_filter this1 of
                 Some flt \<Rightarrow>
                   (True, this1\<lparr>m_filter := Some (snd (set_coefficients flt newCoefficients))\<rparr>)
               | None \<Rightarrow> (False, this1)))"

definition get_constant_skirt_gain :: "FilterObject \<Rightarrow> bool" where
  "get_constant_skirt_gain this = m_constantSkirtGain this"

definition set_bypass :: "FilterObject \<Rightarrow> bool \<Rightarrow> FilterObject" where
  "set_bypass this bypass = this\<lparr>m_bypass := bypass\<rparr>"

definition get_bypass :: "FilterObject \<Rightarrow> bool" where
  "get_bypass this = m_bypass this"

section \<open>The range of the floating-point formats\<close>

text \<open>
  The definitions above compute over the reals. Two tests of the source compare a
  computed value with zero: \<open>set_q_factor\<close> tests the Q that \<open>set_bandwidth\<close> computed,
  and \<open>create\<close> tests the \<open>a0\<close> that \<open>calculate_coefficients\<close> computed. A value that
  leaves the range of the format decides these tests differently from the exact value,
  so the two computations are modelled here once more with the range of IEEE 754
  binary32 (\<open>float\<close>) and binary64 (\<open>double\<close>). The rounding of the significand is
  still not modelled, and \<open>long double\<close>, whose range depends on the platform, is left
  out.
\<close>

datatype ieee_format = Binary32 | Binary64


fun min_subnormal :: "ieee_format \<Rightarrow> real" where
  "min_subnormal Binary32 = 1 / 2 ^ 149"
| "min_subnormal Binary64 = 1 / 2 ^ 1074"


text \<open>
  A result of magnitude at most half the smallest subnormal rounds to zero (the tie goes
  to the even significand, which is zero).
\<close>

definition underflow :: "ieee_format \<Rightarrow> real \<Rightarrow> real" where
  "underflow fmt v = (if \<bar>v\<bar> \<le> min_subnormal fmt / 2 then 0 else v)"


text \<open>
  \<open>calculate_coefficients\<close> for \<open>T\<close> of format \<open>fmt\<close>: the same formulas, with the
  underflow of \<open>std::pow(10, gain / 40)\<close>. An \<open>A\<close> that overflows is infinite in the
  source and makes \<open>a0\<close> infinite or NaN, which \<open>a0 == 0.0\<close> answers like the large
  positive \<open>a0\<close> of this definition.
\<close>

definition calculate_coefficients_fmt :: "ieee_format \<Rightarrow> FilterObject \<Rightarrow> Coefficients" where
  "calculate_coefficients_fmt fmt this =
     (let w0 = 2 * pi * m_cutoff this / real_of_int (m_sampleRate this);
          cos_w0 = cos w0;
          alpha = sin w0 / (2 * m_qFactor this);
          A = underflow fmt (10 powr (m_gain this / 40))
      in case kind this of
           LowPass \<Rightarrow>
             (let c1 = 1 - cos_w0; c0 = c1 / 2; c2 = c0
              in \<lparr>b0 = c0, b1 = c1, b2 = c2,
                  a0 = 1 + alpha, a1 = - 2 * cos_w0, a2 = 1 - alpha\<rparr>)
         | HighPass \<Rightarrow>
             (let c1 = - (1 + cos_w0); c0 = - c1 / 2; c2 = c0
              in \<lparr>b0 = c0, b1 = c1, b2 = c2,
                  a0 = 1 + alpha, a1 = - 2 * cos_w0, a2 = 1 - alpha\<rparr>)
         | BandPass \<Rightarrow>
             (if m_constantSkirtGain this
              then \<lparr>b0 = m_qFactor this * alpha, b1 = 0, b2 = - m_qFactor this * alpha,
                    a0 = 1 + alpha, a1 = - 2 * cos_w0, a2 = 1 - alpha\<rparr>
              else \<lparr>b0 = alpha, b1 = 0, b2 = - alpha,
                    a0 = 1 + alpha, a1 = - 2 * cos_w0, a2 = 1 - alpha\<rparr>)
         | Notch \<Rightarrow>
             \<lparr>b0 = 1, b1 = - 2 * cos_w0, b2 = 1,
              a0 = 1 + alpha, a1 = - 2 * cos_w0, a2 = 1 - alpha\<rparr>
         | AllPass \<Rightarrow>
             \<lparr>b0 = 1 - alpha, b1 = - 2 * cos_w0, b2 = 1 + alpha,
              a0 = 1 + alpha, a1 = - 2 * cos_w0, a2 = 1 - alpha\<rparr>
         | PeakingEQ \<Rightarrow>
             \<lparr>b0 = 1 + alpha * A, b1 = - 2 * cos_w0, b2 = 1 - alpha * A,
              a0 = 1 + alpha / A, a1 = - 2 * cos_w0, a2 = 1 - alpha / A\<rparr>
         | LowShelf \<Rightarrow>
             \<lparr>b0 = A * (A + 1 - (A - 1) * cos_w0 + 2 * sqrt A * alpha),
              b1 = 2 * A * (A - 1 - (A + 1) * cos_w0),
              b2 = A * (A + 1 - (A - 1) * cos_w0 - 2 * sqrt A * alpha),
              a0 = A + 1 + (A - 1) * cos_w0 + 2 * sqrt A * alpha,
              a1 = - 2 * (A - 1 + (A + 1) * cos_w0),
              a2 = A + 1 + (A - 1) * cos_w0 - 2 * sqrt A * alpha\<rparr>
         | HighShelf \<Rightarrow>
             \<lparr>b0 = A * (A + 1 + (A - 1) * cos_w0 + 2 * sqrt A * alpha),
              b1 = - 2 * A * (A - 1 + (A + 1) * cos_w0),
              b2 = A * (A + 1 + (A - 1) * cos_w0 - 2 * sqrt A * alpha),
              a0 = A + 1 - (A - 1) * cos_w0 + 2 * sqrt A * alpha,
              a1 = 2 * (A - 1 - (A + 1) * cos_w0),
              a2 = A + 1 - (A - 1) * cos_w0 - 2 * sqrt A * alpha\<rparr>)"

section \<open>Concrete inputs\<close>

text \<open>A filter in the middle of a run, and a notch filter object that owns it.\<close>

definition old_filter :: DigitalBiquadFilter where
  "old_filter =
     \<lparr>m_coefficients = \<lparr>b0 = 1, b1 = 1, b2 = 1, a0 = 1, a1 = 1, a2 = 1\<rparr>,
      m_state = \<lparr>x1 = 5, x2 = 6, y1 = 7, y2 = 8\<rparr>, m_iter = 2\<rparr>"

definition notch_object :: FilterObject where
  "notch_object =
     \<lparr>kind = Notch, m_filter = Some old_filter, m_cutoff = 1000, m_sampleRate = 44100,
      m_qFactor = 1, m_gain = 0, m_constantSkirtGain = False, m_bypass = False\<rparr>"

text \<open>The filter \<open>y[n] = x[n] + x[n-1]\<close>, freshly created.\<close>

definition sum_filter :: DigitalBiquadFilter where
  "sum_filter =
     \<lparr>m_coefficients = \<lparr>b0 = 1, b1 = 1, b2 = 0, a0 = 1, a1 = 0, a2 = 0\<rparr>,
      m_state = \<lparr>x1 = 0, x2 = 0, y1 = 0, y2 = 0\<rparr>, m_iter = 0\<rparr>"

section \<open>Properties of the engine\<close>

text \<open>
  C2. A single call of \<open>process(sample)\<close> writes back
  \<open>y = b0*x0 + b1*x1 + b2*x2 - a1*y1 - a2*y2\<close> and leaves the state
  \<open>{x1 = x0, x2 = old x1, y1 = y, y2 = old y1}\<close>; the coefficients are unchanged, and the
  call always returns (the model is a total function with no failure value).
\<close>

theorem process_sample_recurrence:
  "fst (process f s) =
      b0 (m_coefficients f) * s + b1 (m_coefficients f) * x1 (m_state f)
      + b2 (m_coefficients f) * x2 (m_state f) - a1 (m_coefficients f) * y1 (m_state f)
      - a2 (m_coefficients f) * y2 (m_state f)
   \<and> m_state (snd (process f s)) =
        \<lparr>x1 = s, x2 = x1 (m_state f), y1 = fst (process f s), y2 = y1 (m_state f)\<rparr>
   \<and> m_coefficients (snd (process f s)) = m_coefficients f"
  by (simp add: process_def Let_def)

text \<open>
  C3. \<open>create\<close> returns nothing exactly when \<open>a0 = 0\<close>; otherwise the new filter stores
  \<open>b0, b1, b2, a1, a2\<close> each divided by the given \<open>a0\<close>, \<open>a0 = 1\<close>, a zero state and a
  zero sample counter.
\<close>

theorem create_normalizes:
  "(create c = None \<longleftrightarrow> a0 c = 0)
   \<and> (a0 c \<noteq> 0 \<longrightarrow>
        create c = Some \<lparr>m_coefficients =
                           \<lparr>b0 = b0 c / a0 c, b1 = b1 c / a0 c, b2 = b2 c / a0 c,
                            a0 = 1, a1 = a1 c / a0 c, a2 = a2 c / a0 c\<rparr>,
                         m_state = \<lparr>x1 = 0, x2 = 0, y1 = 0, y2 = 0\<rparr>,
                         m_iter = 0\<rparr>)"
  by (cases c) (simp add: create_def construct_def normalize_coefficients_def zero_state_def Let_def)

theorem create_normalizes_witness:
  "create \<lparr>b0 = 1, b1 = 2, b2 = 3, a0 = 2, a1 = 4, a2 = 6\<rparr> =
     Some \<lparr>m_coefficients = \<lparr>b0 = 1 / 2, b1 = 1, b2 = 3 / 2, a0 = 1, a1 = 2, a2 = 3\<rparr>,
           m_state = \<lparr>x1 = 0, x2 = 0, y1 = 0, y2 = 0\<rparr>, m_iter = 0\<rparr>
   \<and> create \<lparr>b0 = 1, b1 = 2, b2 = 3, a0 = 0, a1 = 4, a2 = 6\<rparr> = None"
  using create_normalizes [of "\<lparr>b0 = 1, b1 = 2, b2 = 3, a0 = 2, a1 = 4, a2 = 6\<rparr>"]
        create_normalizes [of "\<lparr>b0 = 1, b1 = 2, b2 = 3, a0 = 0, a1 = 4, a2 = 6\<rparr>"]
  by simp

lemma construct_eq:
  "construct c =
     \<lparr>m_coefficients =
        \<lparr>b0 = b0 c / a0 c, b1 = b1 c / a0 c, b2 = b2 c / a0 c,
         a0 = 1, a1 = a1 c / a0 c, a2 = a2 c / a0 c\<rparr>,
      m_state = \<lparr>x1 = 0, x2 = 0, y1 = 0, y2 = 0\<rparr>,
      m_iter = 0\<rparr>"
  by (cases c) (simp add: construct_def normalize_coefficients_def zero_state_def Let_def)

lemma set_coefficients_eq_construct:
  "a0 c \<noteq> 0 \<Longrightarrow> set_coefficients f c = (True, construct c)"
  by (cases f) (simp add: set_coefficients_def construct_def reset_def normalize_coefficients_def
      zero_state_def Let_def)

text \<open>
  C6. \<open>set_coefficients(c)\<close> answers \<open>false\<close> and changes nothing when \<open>a0 = 0\<close>.
  Otherwise it answers \<open>true\<close>, stores the normalised \<open>c\<close> and zeroes the state; the
  filter is then the filter that \<open>create(c)\<close> returns, so every sample processed
  afterwards gives the output of a fresh filter.
\<close>

theorem set_coefficients_resets:
  "(a0 c = 0 \<longrightarrow> set_coefficients f c = (False, f))
   \<and> (a0 c \<noteq> 0 \<longrightarrow>
        fst (set_coefficients f c)
        \<and> m_coefficients (snd (set_coefficients f c)) =
            \<lparr>b0 = b0 c / a0 c, b1 = b1 c / a0 c, b2 = b2 c / a0 c,
             a0 = 1, a1 = a1 c / a0 c, a2 = a2 c / a0 c\<rparr>
        \<and> m_state (snd (set_coefficients f c)) = \<lparr>x1 = 0, x2 = 0, y1 = 0, y2 = 0\<rparr>
        \<and> create c = Some (snd (set_coefficients f c))
        \<and> (\<forall>s. process (snd (set_coefficients f c)) s = process (the (create c)) s))"
proof (intro conjI impI)
  assume "a0 c = 0"
  then show "set_coefficients f c = (False, f)"
    by (simp add: set_coefficients_def)
next
  assume nz: "a0 c \<noteq> 0"
  have eq: "set_coefficients f c = (True, construct c)"
    using nz by (rule set_coefficients_eq_construct)
  show "fst (set_coefficients f c)"
    by (simp add: eq)
  show "m_coefficients (snd (set_coefficients f c)) =
          \<lparr>b0 = b0 c / a0 c, b1 = b1 c / a0 c, b2 = b2 c / a0 c,
           a0 = 1, a1 = a1 c / a0 c, a2 = a2 c / a0 c\<rparr>"
    by (simp add: eq construct_eq)
  show "m_state (snd (set_coefficients f c)) = \<lparr>x1 = 0, x2 = 0, y1 = 0, y2 = 0\<rparr>"
    by (simp add: eq construct_eq)
  show "create c = Some (snd (set_coefficients f c))"
    using nz by (simp add: eq create_def)
  show "\<forall>s. process (snd (set_coefficients f c)) s = process (the (create c)) s"
    using nz by (simp add: eq create_def)
qed

theorem set_coefficients_resets_witness:
  "set_coefficients old_filter \<lparr>b0 = 1, b1 = 2, b2 = 3, a0 = 0, a1 = 4, a2 = 6\<rparr>
     = (False, old_filter)
   \<and> set_coefficients old_filter \<lparr>b0 = 1, b1 = 2, b2 = 3, a0 = 2, a1 = 4, a2 = 6\<rparr>
     = (True, \<lparr>m_coefficients = \<lparr>b0 = 1 / 2, b1 = 1, b2 = 3 / 2, a0 = 1, a1 = 2, a2 = 3\<rparr>,
               m_state = \<lparr>x1 = 0, x2 = 0, y1 = 0, y2 = 0\<rparr>, m_iter = 0\<rparr>)
   \<and> create \<lparr>b0 = 1, b1 = 2, b2 = 3, a0 = 2, a1 = 4, a2 = 6\<rparr>
     = Some (snd (set_coefficients old_filter \<lparr>b0 = 1, b1 = 2, b2 = 3, a0 = 2, a1 = 4, a2 = 6\<rparr>))"
proof -
  have z: "a0 \<lparr>b0 = 1, b1 = 2, b2 = 3, a0 = 0, a1 = 4, a2 = 6\<rparr> = 0"
    by simp
  have nz: "a0 \<lparr>b0 = 1, b1 = 2, b2 = 3, a0 = 2, a1 = 4, a2 = 6\<rparr> \<noteq> 0"
    by simp
  note r0 = set_coefficients_resets
              [of "\<lparr>b0 = 1, b1 = 2, b2 = 3, a0 = 0, a1 = 4, a2 = 6\<rparr>" old_filter]
  note r2 = set_coefficients_resets
              [of "\<lparr>b0 = 1, b1 = 2, b2 = 3, a0 = 2, a1 = 4, a2 = 6\<rparr>" old_filter]
  have p1: "set_coefficients old_filter \<lparr>b0 = 1, b1 = 2, b2 = 3, a0 = 0, a1 = 4, a2 = 6\<rparr>
              = (False, old_filter)"
    using r0 z by blast
  have p3: "create \<lparr>b0 = 1, b1 = 2, b2 = 3, a0 = 2, a1 = 4, a2 = 6\<rparr>
     = Some (snd (set_coefficients old_filter \<lparr>b0 = 1, b1 = 2, b2 = 3, a0 = 2, a1 = 4, a2 = 6\<rparr>))"
    using r2 nz by blast
  have p2: "set_coefficients old_filter \<lparr>b0 = 1, b1 = 2, b2 = 3, a0 = 2, a1 = 4, a2 = 6\<rparr>
     = (True, \<lparr>m_coefficients = \<lparr>b0 = 1 / 2, b1 = 1, b2 = 3 / 2, a0 = 1, a1 = 2, a2 = 3\<rparr>,
               m_state = \<lparr>x1 = 0, x2 = 0, y1 = 0, y2 = 0\<rparr>, m_iter = 0\<rparr>)"
    by (simp add: set_coefficients_eq_construct construct_eq)
  show ?thesis using p1 p2 p3 by blast
qed

subsection \<open>Block processing against sample-by-sample processing\<close>

text \<open>
  The scalar body does what the sequence of single-sample calls does: the first
  \<open>count\<close> samples are replaced by their outputs, the rest of the buffer is untouched,
  and the filter ends in the same state.
\<close>

lemma scalar_loop_sequential:
  "i \<le> count \<Longrightarrow> count \<le> length xs \<Longrightarrow>
     scalar_loop i count xs f =
       Inr (take i xs @ fst (sequential f (take (count - i) (drop i xs))) @ drop count xs,
            snd (sequential f (take (count - i) (drop i xs))))"
proof (induction i count xs f rule: scalar_loop.induct)
  case (1 i count samples f)
  show ?case
  proof (cases "i < count")
    case False
    with "1.prems" have "i = count" by simp
    then show ?thesis
      by (subst scalar_loop.simps) simp
  next
    case True
    with "1.prems" have len: "i < length samples" by simp
    define y where "y = fst (process f (samples ! i))"
    define f' where "f' = snd (process f (samples ! i))"
    have split: "take (count - i) (drop i samples)
                   = samples ! i # take (count - Suc i) (drop (Suc i) samples)"
    proof -
      have "drop i samples = samples ! i # drop (Suc i) samples"
        using len by (simp add: Cons_nth_drop_Suc)
      moreover have "count - i = Suc (count - Suc i)"
        using True by simp
      ultimately show ?thesis by simp
    qed
    have ih: "scalar_loop (i + 1) count (samples[i := y]) f' =
       Inr (take (i + 1) (samples[i := y])
              @ fst (sequential f' (take (count - (i + 1)) (drop (i + 1) (samples[i := y]))))
              @ drop count (samples[i := y]),
            snd (sequential f' (take (count - (i + 1)) (drop (i + 1) (samples[i := y])))))"
      unfolding y_def f'_def
      using True len "1.prems" by (intro "1.IH") simp_all
    have a: "take (i + 1) (samples[i := y]) = take i samples @ [y]"
      using len by (simp add: take_Suc_conv_app_nth)
    have b: "drop (i + 1) (samples[i := y]) = drop (Suc i) samples"
      by simp
    have c: "drop count (samples[i := y]) = drop count samples"
      using True by simp
    have "scalar_loop i count samples f = scalar_loop (i + 1) count (samples[i := y]) f'"
      using True len by (subst scalar_loop.simps) (simp add: y_def f'_def)
    also note ih
    finally show ?thesis
      unfolding a b c split by (simp add: y_def f'_def Let_def)
  qed
qed

lemma process_block_scalar_build:
  assumes "0 < count" and "count \<le> length xs"
  shows "process_block NoSimd p f (Some xs) count =
           Inr (True, Some (fst (sequential f (take count xs)) @ drop count xs),
                snd (sequential f (take count xs)))"
  using assms scalar_loop_sequential [of 0 count xs f]
  by (simp add: process_block_def process_block_scalar_def)

text \<open>
  C1. The claim is that a block call gives the outputs and the final state of the
  sample-by-sample calls on every build. The vector bodies do not: each lane is computed
  from the lanes of the previous register, not from the neighbouring samples, the
  samples after the last full register are not processed, and the state is read back
  from lane 0. On the AVX build with \<open>T = double\<close>, the filter
  \<open>y[n] = x[n] + x[n-1]\<close> leaves the block \<open>[1, 2, 3, 4]\<close> as it is, where the
  sample-by-sample calls (and the scalar build) give \<open>[1, 3, 5, 7]\<close>; of
  \<open>[1, 2, 3, 4, 5]\<close> the fifth sample is not touched at all.
\<close>

theorem block_avx_not_sequential:
  "create \<lparr>b0 = 1, b1 = 1, b2 = 0, a0 = 1, a1 = 0, a2 = 0\<rparr> = Some sum_filter
   \<and> process_block AVX Double sum_filter (Some [1, 2, 3, 4]) 4 =
        Inr (True, Some [1, 2, 3, 4],
             sum_filter\<lparr>m_state := \<lparr>x1 = 1, x2 = 0, y1 = 1, y2 = 0\<rparr>\<rparr>)
   \<and> sequential sum_filter [1, 2, 3, 4] =
        ([1, 3, 5, 7],
         sum_filter\<lparr>m_state := \<lparr>x1 = 4, x2 = 3, y1 = 7, y2 = 5\<rparr>, m_iter := 4\<rparr>)
   \<and> process_block NoSimd Double sum_filter (Some [1, 2, 3, 4]) 4 =
        Inr (True, Some [1, 3, 5, 7],
             sum_filter\<lparr>m_state := \<lparr>x1 = 4, x2 = 3, y1 = 7, y2 = 5\<rparr>, m_iter := 4\<rparr>)
   \<and> process_block AVX Double sum_filter (Some [1, 2, 3, 4, 5]) 5 =
        Inr (True, Some [1, 2, 3, 4, 5],
             sum_filter\<lparr>m_state := \<lparr>x1 = 1, x2 = 0, y1 = 1, y2 = 0\<rparr>\<rparr>)
   \<and> fst (sequential sum_filter [1, 2, 3, 4, 5]) = [1, 3, 5, 7, 9]"
proof (intro conjI)
  show "create \<lparr>b0 = 1, b1 = 1, b2 = 0, a0 = 1, a1 = 0, a2 = 0\<rparr> = Some sum_filter"
    by (simp add: create_def construct_eq sum_filter_def)
  show "process_block AVX Double sum_filter (Some [1, 2, 3, 4]) 4 =
        Inr (True, Some [1, 2, 3, 4],
             sum_filter\<lparr>m_state := \<lparr>x1 = 1, x2 = 0, y1 = 1, y2 = 0\<rparr>\<rparr>)"
    by (simp add: process_block_def process_block_avx_def process_block_vec_def
        vec_loop.simps [of W4 _ 0 4] vec_loop.simps [of W4 _ 4 4]
        sum_filter_def set1_def loadu_def storeu_def vmul_def vadd_def vsub_def lane0_def
        Let_def numeral_eq_Suc)
  show "sequential sum_filter [1, 2, 3, 4] =
        ([1, 3, 5, 7],
         sum_filter\<lparr>m_state := \<lparr>x1 = 4, x2 = 3, y1 = 7, y2 = 5\<rparr>, m_iter := 4\<rparr>)"
    by (simp add: sum_filter_def process_def Let_def)
  show "process_block NoSimd Double sum_filter (Some [1, 2, 3, 4]) 4 =
        Inr (True, Some [1, 3, 5, 7],
             sum_filter\<lparr>m_state := \<lparr>x1 = 4, x2 = 3, y1 = 7, y2 = 5\<rparr>, m_iter := 4\<rparr>)"
    by (simp add: process_block_def process_block_scalar_def
        scalar_loop.simps [of 0 4] scalar_loop.simps [of 1 4] scalar_loop.simps [of 2 4]
        scalar_loop.simps [of 3 4] scalar_loop.simps [of 4 4]
        sum_filter_def process_def Let_def)
  show "process_block AVX Double sum_filter (Some [1, 2, 3, 4, 5]) 5 =
        Inr (True, Some [1, 2, 3, 4, 5],
             sum_filter\<lparr>m_state := \<lparr>x1 = 1, x2 = 0, y1 = 1, y2 = 0\<rparr>\<rparr>)"
    by (simp add: process_block_def process_block_avx_def process_block_vec_def
        vec_loop.simps [of W4 _ 0 5] vec_loop.simps [of W4 _ 4 5]
        sum_filter_def set1_def loadu_def storeu_def vmul_def vadd_def vsub_def lane0_def
        Let_def numeral_eq_Suc)
  show "fst (sequential sum_filter [1, 2, 3, 4, 5]) = [1, 3, 5, 7, 9]"
    by (simp add: sum_filter_def process_def Let_def)
qed

section \<open>Properties of the filter types\<close>

text \<open>
  C8. Each of \<open>set_cutoff(v)\<close>, \<open>set_sample_rate(n)\<close> and \<open>set_q_factor(v)\<close> with a
  non-positive argument answers \<open>false\<close> and leaves the whole object as it was: the
  stored design parameters, the core's coefficients and the core's state.
\<close>

theorem setters_reject_nonpositive:
  "v \<le> 0 \<Longrightarrow> n \<le> 0 \<Longrightarrow>
     set_cutoff this v = (False, this)
     \<and> set_sample_rate this n = (False, this)
     \<and> set_q_factor this v = (False, this)"
  by (simp add: set_cutoff_def set_sample_rate_def set_q_factor_def)

theorem setters_reject_nonpositive_witness:
  "set_cutoff notch_object 0 = (False, notch_object)
   \<and> set_sample_rate notch_object (- 1) = (False, notch_object)
   \<and> set_q_factor notch_object 0 = (False, notch_object)
   \<and> m_filter notch_object = Some old_filter"
proof -
  have h1: "(0::real) \<le> 0" and h2: "(- 1::int) \<le> 0"
    by simp_all
  have h3: "m_filter notch_object = Some old_filter"
    by (simp add: notch_object_def)
  show ?thesis
    using setters_reject_nonpositive [OF h1 h2, of notch_object] h3 by blast
qed

text \<open>
  C10. On an object without a core, \<open>set_cutoff\<close>, \<open>set_sample_rate\<close>, \<open>set_q_factor\<close>
  (with a positive argument) and \<open>set_gain\<close> (any argument) answer \<open>false\<close> and still
  store the new value, which the getter then returns: a \<open>false\<close> answer does not mean
  that the parameters are unchanged.
\<close>

theorem setters_keep_parameter_without_core:
  "m_filter this = None \<Longrightarrow> 0 < v \<Longrightarrow> 0 < n \<Longrightarrow>
     set_cutoff this v = (False, this\<lparr>m_cutoff := v\<rparr>)
     \<and> get_cutoff (snd (set_cutoff this v)) = v
     \<and> set_sample_rate this n = (False, this\<lparr>m_sampleRate := n\<rparr>)
     \<and> get_sample_rate (snd (set_sample_rate this n)) = n
     \<and> set_q_factor this v = (False, this\<lparr>m_qFactor := v\<rparr>)
     \<and> get_q_factor (snd (set_q_factor this v)) = v
     \<and> set_gain this g = (False, this\<lparr>m_gain := g\<rparr>)
     \<and> get_gain (snd (set_gain this g)) = g"
  by (simp add: set_cutoff_def set_sample_rate_def set_q_factor_def set_gain_def
      get_cutoff_def get_sample_rate_def get_q_factor_def get_gain_def Let_def)

theorem setters_keep_parameter_without_core_witness:
  "m_filter (default_object LowShelf) = None \<and> (0::real) < 100 \<and> (0::int) < 8000
   \<and> set_cutoff (default_object LowShelf) 100 = (False, (default_object LowShelf)\<lparr>m_cutoff := 100\<rparr>)
   \<and> get_cutoff (snd (set_cutoff (default_object LowShelf) 100)) = 100
   \<and> get_cutoff (default_object LowShelf) = 0
   \<and> get_sample_rate (snd (set_sample_rate (default_object LowShelf) 8000)) = 8000
   \<and> get_q_factor (snd (set_q_factor (default_object LowShelf) 100)) = 100
   \<and> get_gain (snd (set_gain (default_object LowShelf) (- 3))) = - 3"
proof -
  have h1: "m_filter (default_object LowShelf) = None"
    by (simp add: default_object_def)
  have h2: "get_cutoff (default_object LowShelf) = 0"
    by (simp add: default_object_def get_cutoff_def)
  have h3: "(0::real) < 100" and h4: "(0::int) < 8000"
    by simp_all
  note t = setters_keep_parameter_without_core [OF h1 h3 h4, of "- 3"]
  show ?thesis using h1 h2 h3 h4 t by blast
qed

text \<open>
  C9. While bypass is set, \<open>process\<close> on a sample and on a block answers \<open>false\<close> and
  leaves the sample, the buffer and the object unchanged. Setting bypass, processing,
  and clearing bypass again gives back the object that was never bypassed, so processing
  continues as if nothing had happened, with nothing recomputed.
\<close>

theorem bypass_is_noop:
  "(m_bypass this \<longrightarrow>
      filter_process this s = (False, s, this)
      \<and> filter_process_block isa p this samples count = Inr (False, samples, this))
   \<and> (\<not> m_bypass this \<longrightarrow>
        set_bypass (snd (snd (filter_process (set_bypass this True) s))) False = this
        \<and> (case filter_process_block isa p (set_bypass this True) samples count of
             Inl e \<Rightarrow> False
           | Inr (ok, buf, this') \<Rightarrow> set_bypass this' False = this))
   \<and> get_bypass (set_bypass this b) = b"
  by (simp add: filter_process_def filter_process_block_def set_bypass_def get_bypass_def)

theorem bypass_is_noop_witness:
  "m_bypass (set_bypass notch_object True) \<and> \<not> m_bypass notch_object
   \<and> filter_process (set_bypass notch_object True) 3 = (False, 3, set_bypass notch_object True)
   \<and> filter_process_block AVX Double (set_bypass notch_object True) (Some [1, 2, 3, 4, 5]) 5
       = Inr (False, Some [1, 2, 3, 4, 5], set_bypass notch_object True)
   \<and> set_bypass (snd (snd (filter_process (set_bypass notch_object True) 3))) False
       = notch_object"
proof -
  have h1: "m_bypass (set_bypass notch_object True)"
    by (simp add: set_bypass_def)
  have h2: "\<not> m_bypass notch_object"
    by (simp add: notch_object_def)
  note on = bypass_is_noop [of "set_bypass notch_object True" 3 AVX Double "Some [1, 2, 3, 4, 5]" 5]
  note off = bypass_is_noop [of notch_object 3]
  show ?thesis using h1 h2 on off by blast
qed

subsection \<open>Bounds on the constants\<close>







subsection \<open>Bounds on the formats\<close>








subsection \<open>Bandwidth and Q\<close>











text \<open>
  C4. The claim has \<open>Q = 1 / (2 * sinh ((bandwidth * ln 2) / 2))\<close>. The source calls
  \<open>std::log10(2.0)\<close> where the natural logarithm belongs: for a bandwidth of 2 octaves
  the claim gives \<open>Q = 2/3\<close>, and \<open>set_bandwidth(2)\<close> hands
  \<open>1 / (2 * sinh (log 10 2))\<close> to \<open>set_q_factor\<close>, which is larger.
\<close>

theorem set_bandwidth_uses_log10:
  "set_bandwidth this 2 = set_q_factor this (1 / (2 * sinh (log 10 2)))
   \<and> get_q_factor (snd (set_bandwidth this 2)) = 1 / (2 * sinh (log 10 2))
   \<and> 1 / (2 * sinh (2 * ln 2 / 2)) = (2 / 3 :: real)
   \<and> 1 / (2 * sinh (2 * ln 2 / 2)) < get_q_factor (snd (set_bandwidth this 2))"
proof -
  define Q :: real where "Q = 1 / (2 * sinh (log 10 2))"
  have l2: "0 < ln (2::real)" by simp
  have "exp (1::real) < 10"
    using exp_le by simp
  then have "ln (exp (1::real)) < ln 10"
    by (subst ln_less_cancel_iff) simp_all
  then have l10: "1 < ln (10::real)" by simp
  have lt: "log 10 2 < ln (2::real)"
  proof -
    have "ln 2 / ln 10 < ln (2::real) / 1"
      using l2 l10 by (intro divide_strict_left_mono) simp_all
    then show ?thesis by (simp add: log_def)
  qed
  have lpos: "0 < log 10 (2::real)" by simp
  then have spos: "0 < sinh (log 10 (2::real))" by simp
  then have Qpos: "0 < Q" by (simp add: Q_def)
  have a: "set_bandwidth this 2 = set_q_factor this Q"
    by (simp add: set_bandwidth_def Q_def Let_def)
  have b: "get_q_factor (snd (set_q_factor this Q)) = Q"
    using Qpos by (simp add: set_q_factor_def get_q_factor_def Let_def split: option.splits)
  have c: "sinh (ln (2::real)) = 3 / 4"
    by (simp add: sinh_def exp_minus)
  have d: "sinh (log 10 2) < sinh (ln (2::real))"
    using lt by simp
  have e: "1 / (2 * sinh (ln 2)) < Q"
    unfolding Q_def using d spos
    by (intro divide_strict_left_mono) (simp_all add: c)
  have c': "1 / (2 * sinh (2 * ln 2 / 2)) = (2 / 3 :: real)"
    by (simp only: c nonzero_mult_div_cancel_left) simp
  have a': "set_bandwidth this 2 = set_q_factor this (1 / (2 * sinh (log 10 2)))"
    using a by (simp only: Q_def)
  have b': "get_q_factor (snd (set_bandwidth this 2)) = 1 / (2 * sinh (log 10 2))"
    using a b by (simp only: Q_def)
  have e': "1 / (2 * sinh (2 * ln 2 / 2)) < get_q_factor (snd (set_bandwidth this 2))"
    using e a b by simp
  show ?thesis
    using a' b' c' e' by blast
qed

subsection \<open>The factories\<close>

text \<open>
  In exact arithmetic the validated parameters give \<open>0 < w0 \<le> pi\<close>, hence
  \<open>sin w0 \<ge> 0\<close>, \<open>cos w0 < 1\<close> and a positive \<open>a0\<close> for each of the eight kinds.
\<close>

lemma calculate_coefficients_a0_pos:
  assumes c: "0 < m_cutoff this" and sr: "0 < m_sampleRate this" and q: "0 < m_qFactor this"
    and ny: "m_cutoff this \<le> real_of_int (m_sampleRate this) / 2"
  shows "0 < a0 (calculate_coefficients this)"
proof -
  define w0 where "w0 = 2 * pi * m_cutoff this / real_of_int (m_sampleRate this)"
  define alpha where "alpha = sin w0 / (2 * m_qFactor this)"
  define A :: real where "A = 10 powr (m_gain this / 40)"
  have srr: "0 < real_of_int (m_sampleRate this)" using sr by simp
  have w0_pos: "0 < w0"
    unfolding w0_def using c srr by simp
  have "2 * m_cutoff this / real_of_int (m_sampleRate this) \<le> 1"
    using ny srr by (simp add: field_simps)
  then have "pi * (2 * m_cutoff this / real_of_int (m_sampleRate this)) \<le> pi * 1"
    by (intro mult_left_mono) simp_all
  then have w0_le: "w0 \<le> pi"
    by (simp add: w0_def mult.assoc mult.left_commute)
  have sin0: "0 \<le> sin w0"
    using w0_pos w0_le by (intro sin_ge_zero) simp_all
  have cos1: "cos w0 < 1"
    using cos_monotone_0_pi [of 0 w0] w0_pos w0_le by simp
  have cosm1: "0 \<le> 1 + cos w0"
    using cos_ge_minus_one [of w0] by linarith
  have alpha0: "0 \<le> alpha"
    unfolding alpha_def using sin0 q by simp
  have A: "0 < A" by (simp add: A_def)
  have sA: "0 \<le> 2 * sqrt A * alpha"
    using A alpha0 by simp
  have dA: "0 \<le> alpha / A"
    using A alpha0 by simp
  have low: "0 < A + 1 + (A - 1) * cos w0"
  proof -
    have "0 \<le> A * (1 + cos w0)" using A cosm1 by (intro mult_nonneg_nonneg) simp_all
    moreover have "0 < 1 - cos w0" using cos1 by simp
    ultimately have "0 < A * (1 + cos w0) + (1 - cos w0)" by linarith
    then show ?thesis by (simp add: algebra_simps)
  qed
  have high: "0 < A + 1 - (A - 1) * cos w0"
  proof -
    have "0 < A * (1 - cos w0)" using A cos1 by (intro mult_pos_pos) simp_all
    moreover have "0 \<le> 1 + cos w0" by (rule cosm1)
    ultimately have "0 < A * (1 - cos w0) + (1 + cos w0)" by linarith
    then show ?thesis by (simp add: algebra_simps)
  qed
  have eq: "a0 (calculate_coefficients this) =
      (case kind this of
         PeakingEQ \<Rightarrow> 1 + alpha / A
       | LowShelf \<Rightarrow> A + 1 + (A - 1) * cos w0 + 2 * sqrt A * alpha
       | HighShelf \<Rightarrow> A + 1 - (A - 1) * cos w0 + 2 * sqrt A * alpha
       | _ \<Rightarrow> 1 + alpha)"
    by (simp add: calculate_coefficients_def Let_def w0_def alpha_def A_def
        split: FilterKind.splits)
  have v1: "0 < 1 + alpha" using alpha0 by linarith
  have v2: "0 < 1 + alpha / A" using dA by linarith
  have v3: "0 < A + 1 + (A - 1) * cos w0 + 2 * sqrt A * alpha"
    using low sA by linarith
  have v4: "0 < A + 1 - (A - 1) * cos w0 + 2 * sqrt A * alpha"
    using high sA by linarith
  show ?thesis
    unfolding eq by (cases "kind this") (simp_all only: FilterKind.case v1 v2 v3 v4)
qed


lemma stored_parameters_fields:
  "kind (stored_parameters k cutoff sampleRate qFactor gain csg) = k
   \<and> m_filter (stored_parameters k cutoff sampleRate qFactor gain csg) = None
   \<and> m_cutoff (stored_parameters k cutoff sampleRate qFactor gain csg) = cutoff
   \<and> m_sampleRate (stored_parameters k cutoff sampleRate qFactor gain csg) = sampleRate
   \<and> m_qFactor (stored_parameters k cutoff sampleRate qFactor gain csg) = qFactor
   \<and> m_bypass (stored_parameters k cutoff sampleRate qFactor gain csg) = False"
  by (simp add: stored_parameters_def default_object_def Let_def)

lemma construct_filter_fields:
  "kind (construct_filter calc k cutoff sampleRate qFactor gain csg) = k
   \<and> m_filter (construct_filter calc k cutoff sampleRate qFactor gain csg)
       = create (calc (stored_parameters k cutoff sampleRate qFactor gain csg))
   \<and> m_cutoff (construct_filter calc k cutoff sampleRate qFactor gain csg) = cutoff
   \<and> m_sampleRate (construct_filter calc k cutoff sampleRate qFactor gain csg) = sampleRate
   \<and> m_qFactor (construct_filter calc k cutoff sampleRate qFactor gain csg) = qFactor"
  by (simp add: construct_filter_def Let_def stored_parameters_fields)

lemma verify_parameters_iff:
  "verify_parameters cutoff sampleRate qFactor \<longleftrightarrow>
     \<not> (sampleRate \<le> 0 \<or> cutoff \<le> 0 \<or> qFactor \<le> 0 \<or> cutoff > real_of_int sampleRate / 2)"
  by (simp add: verify_parameters_def)

text \<open>
  C7, as amended. For each of the eight filter kinds the factory returns nothing when
  \<open>sampleRate \<le> 0\<close>, \<open>cutoff \<le> 0\<close>, \<open>qFactor \<le> 0\<close> or \<open>cutoff > sampleRate / 2\<close>, and
  for arguments that pass these checks exactly when the \<open>a0\<close> that
  \<open>calculate_coefficients\<close> computed is zero (the inner \<open>create\<close> then fails and the
  factory passes the failure on). In every other case it returns an object that owns a
  core and stores the given cutoff, sample rate and Q. This holds for whatever values the
  arithmetic of \<open>T\<close> computes.
\<close>

theorem create_filter_empty_iff:
  "(create_filter calc k cutoff sampleRate qFactor gain csg = None
      \<longleftrightarrow> (sampleRate \<le> 0 \<or> cutoff \<le> 0 \<or> qFactor \<le> 0
           \<or> cutoff > real_of_int sampleRate / 2
           \<or> a0 (calc (stored_parameters k cutoff sampleRate qFactor gain csg)) = 0))
   \<and> (create_filter calc k cutoff sampleRate qFactor gain csg \<noteq> None
        \<longrightarrow> (\<exists>obj core. create_filter calc k cutoff sampleRate qFactor gain csg = Some obj
               \<and> m_filter obj = Some core \<and> kind obj = k
               \<and> m_cutoff obj = cutoff \<and> m_sampleRate obj = sampleRate
               \<and> m_qFactor obj = qFactor))"
proof -
  define this where "this = stored_parameters k cutoff sampleRate qFactor gain csg"
  define obj where "obj = construct_filter calc k cutoff sampleRate qFactor gain csg"
  have core: "m_filter obj = create (calc this)"
    and fields: "kind obj = k" "m_cutoff obj = cutoff" "m_sampleRate obj = sampleRate"
      "m_qFactor obj = qFactor"
    using construct_filter_fields [of calc k cutoff sampleRate qFactor gain csg]
    by (simp_all add: obj_def this_def)
  have none: "create (calc this) = None \<longleftrightarrow> a0 (calc this) = 0"
    by (simp add: create_def)
  show ?thesis
  proof (cases "verify_parameters cutoff sampleRate qFactor")
    case False
    then have "create_filter calc k cutoff sampleRate qFactor gain csg = None"
      by (simp add: create_filter_def)
    with False show ?thesis
      by (auto simp add: verify_parameters_iff)
  next
    case True
    show ?thesis
    proof (cases "a0 (calc this) = 0")
      case zero: True
      then have "create_filter calc k cutoff sampleRate qFactor gain csg = None"
        using True core none by (simp add: create_filter_def Let_def obj_def)
      with zero show ?thesis
        by (simp add: this_def)
    next
      case nz: False
      then obtain c where c: "m_filter obj = Some c"
        using core none by auto
      then have "create_filter calc k cutoff sampleRate qFactor gain csg = Some obj"
        using True by (simp add: create_filter_def Let_def obj_def)
      with True nz c fields show ?thesis
        by (simp add: verify_parameters_iff this_def)
    qed
  qed
qed

text \<open>
  In exact arithmetic the second case does not occur, and the four checks alone decide.
\<close>

lemma create_filter_exact_arithmetic:
  "create_filter calculate_coefficients k cutoff sampleRate qFactor gain csg = None
     \<longleftrightarrow> (sampleRate \<le> 0 \<or> cutoff \<le> 0 \<or> qFactor \<le> 0 \<or> cutoff > real_of_int sampleRate / 2)"
proof (cases "verify_parameters cutoff sampleRate qFactor")
  case False
  then show ?thesis
    by (simp add: create_filter_def) (simp add: verify_parameters_iff)
next
  case True
  define this where "this = stored_parameters k cutoff sampleRate qFactor gain csg"
  have v: "0 < cutoff" "0 < sampleRate" "0 < qFactor" "cutoff \<le> real_of_int sampleRate / 2"
    using True by (simp_all add: verify_parameters_def split: if_splits)
  have f: "m_cutoff this = cutoff" "m_sampleRate this = sampleRate" "m_qFactor this = qFactor"
    using stored_parameters_fields [of k cutoff sampleRate qFactor gain csg]
    by (simp_all add: this_def)
  have p: "0 < m_cutoff this" "0 < m_sampleRate this" "0 < m_qFactor this"
    "m_cutoff this \<le> real_of_int (m_sampleRate this) / 2"
    unfolding f by (rule v)+
  have "0 < a0 (calculate_coefficients this)"
    by (rule calculate_coefficients_a0_pos [OF p])
  then have "create (calculate_coefficients this) \<noteq> None"
    by (simp add: create_def)
  then have "create_filter calculate_coefficients k cutoff sampleRate qFactor gain csg \<noteq> None"
    using True by (simp add: create_filter_def construct_filter_def Let_def this_def)
  with True show ?thesis
    by (simp add: verify_parameters_iff)
qed

text \<open>
  In binary64 it does occur. \<open>HighShelfFilter<double>::create(1.0, 2, 1.0, -20000.0)\<close>
  passes the four checks; \<open>w0\<close> is \<open>pi\<close> and \<open>cos w0 = -1\<close>, and
  \<open>std::pow(10.0, -500.0)\<close> underflows to zero, so that
  \<open>a0 = (0 + 1) - (0 - 1) * (-1) + 2 * sqrt 0 * alpha = 0\<close>.
\<close>

lemma pow_underflows: "underflow Binary64 (10 powr (- 500)) = 0"
proof -
  have a: "(2::real) ^ 1075 \<le> 2 ^ 1500"
    by (rule power_increasing) simp_all
  have b: "(2::real) ^ 1500 = (2 ^ 3) ^ 500"
    using power_mult [of "2::real" 3 500] by (simp del: power_numeral)
  have c: "((2::real) ^ 3) ^ 500 \<le> 10 ^ 500"
    by (rule power_mono) simp_all
  have "(2::real) ^ 1075 \<le> (2 ^ 3) ^ 500"
    using a by (simp only: b)
  then have le: "(2::real) ^ 1075 \<le> 10 ^ 500"
    using c by (rule order_trans)
  have "(10::real) powr 500 = 10 ^ 500"
    by (rule powr_numeral) simp
  then have e: "(10::real) powr (- 500) = 1 / 10 ^ 500"
    by (simp only: powr_minus_divide)
  have "(2::real) ^ 1075 = 2 * 2 ^ 1074"
    using power_Suc [of "2::real" 1074] by (simp del: power_numeral)
  then have f: "min_subnormal Binary64 / 2 = 1 / 2 ^ 1075"
    by (simp del: power_numeral)
  have g: "1 / (10::real) ^ 500 \<le> 1 / 2 ^ 1075"
    using le by (intro divide_left_mono) (simp_all del: power_numeral)
  have "0 \<le> 1 / (10::real) ^ 500"
    by (simp del: power_numeral)
  then have "\<bar>(10::real) powr (- 500)\<bar> \<le> min_subnormal Binary64 / 2"
    unfolding e f using g by linarith
  then show ?thesis
    by (simp only: underflow_def if_True)
qed

lemma high_shelf_a0_zero:
  "a0 (calculate_coefficients_fmt Binary64 (stored_parameters HighShelf 1 2 1 (- 20000) False)) = 0"
proof -
  have A: "underflow Binary64 (10 powr (- 500)) = 0"
    by (rule pow_underflows)
  show ?thesis
    by (simp add: calculate_coefficients_fmt_def stored_parameters_def default_object_def
        Let_def A del: min_subnormal.simps)
qed

text \<open>
  C7 as stated fails there: the factory returns nothing although all four checks pass.
\<close>

theorem create_filter_validates_counterexample:
  "\<not> (create_filter (calculate_coefficients_fmt Binary64) HighShelf 1 2 1 (- 20000) False = None
        \<longleftrightarrow> ((2::int) \<le> 0 \<or> (1::real) \<le> 0 \<or> (1::real) \<le> 0 \<or> (1::real) > real_of_int 2 / 2))"
proof -
  have v: "verify_parameters 1 2 1"
    by (simp add: verify_parameters_def)
  have "create (calculate_coefficients_fmt Binary64
                  (stored_parameters HighShelf 1 2 1 (- 20000) False)) = None"
    using high_shelf_a0_zero by (simp add: create_def)
  then have "create_filter (calculate_coefficients_fmt Binary64) HighShelf 1 2 1 (- 20000) False
               = None"
    using v by (simp add: create_filter_def construct_filter_def Let_def)
  then show ?thesis by simp
qed

theorem create_filter_empty_iff_witness:
  "create_filter (calculate_coefficients_fmt Binary64) HighShelf 1 2 1 (- 20000) False = None
   \<and> create_filter calculate_coefficients LowShelf 1000 0 1 6 False = None
   \<and> create_filter calculate_coefficients LowShelf 30000 44100 1 6 False = None
   \<and> (\<exists>obj core. create_filter calculate_coefficients LowShelf 1000 44100 1 6 False = Some obj
         \<and> m_filter obj = Some core \<and> kind obj = LowShelf \<and> m_cutoff obj = 1000
         \<and> m_sampleRate obj = 44100 \<and> m_qFactor obj = 1)"
proof -
  note t1 = create_filter_empty_iff
              [of "calculate_coefficients_fmt Binary64" HighShelf 1 2 1 "- 20000" False]
  note t2 = create_filter_empty_iff [of calculate_coefficients LowShelf 1000 0 1 6 False]
  note t3 = create_filter_empty_iff [of calculate_coefficients LowShelf 30000 44100 1 6 False]
  note t4 = create_filter_empty_iff [of calculate_coefficients LowShelf 1000 44100 1 6 False]
  have p1: "create_filter (calculate_coefficients_fmt Binary64) HighShelf 1 2 1 (- 20000) False
              = None"
    using t1 high_shelf_a0_zero by blast
  have p2: "create_filter calculate_coefficients LowShelf 1000 0 1 6 False = None"
    using t2 by simp
  have p3: "create_filter calculate_coefficients LowShelf 30000 44100 1 6 False = None"
    using t3 by simp
  have "create_filter calculate_coefficients LowShelf 1000 44100 1 6 False \<noteq> None"
    by (simp add: create_filter_exact_arithmetic)
  then have p4: "\<exists>obj core. create_filter calculate_coefficients LowShelf 1000 44100 1 6 False
                    = Some obj
         \<and> m_filter obj = Some core \<and> kind obj = LowShelf \<and> m_cutoff obj = 1000
         \<and> m_sampleRate obj = 44100 \<and> m_qFactor obj = 1"
    using t4 by blast
  show ?thesis using p1 p2 p3 p4 by blast
qed

end
